theory Spec2Isabelle
  imports Complex_Main
begin

section \<open>Values shared by the two services\<close>

text \<open>
  Python strings are modelled as \<open>string\<close>, one \<open>char\<close> for each character of the
  Python \<open>str\<close>: \<open>length\<close> is \<open>len\<close> and \<open>take n\<close> is the slice \<open>[:n]\<close>. Python floats
  are modelled as \<open>real\<close>: the comparisons of finite floats agree with those of the reals;
  the rounding of float arithmetic is outside the model.
\<close>

text \<open>
  Exceptions. \<open>ExternalError\<close> is any exception an external collaborator raises
  (network error, timeout, output that does not parse); it carries \<open>str(e)\<close>.
\<close>

datatype exn =
    ExternalError string
  | ValidationError string
  | IntegrityError string
  | ValueError string
  | KeyError string
  | GraphRecursionError

fun exn_str :: "exn \<Rightarrow> string" where
  "exn_str (ExternalError m) = m"
| "exn_str (ValidationError m) = m"
| "exn_str (IntegrityError m) = m"
| "exn_str (ValueError m) = m"
| "exn_str (KeyError k) = [CHR 0x27] @ k @ [CHR 0x27]"
| "exn_str GraphRecursionError = ''Recursion limit of 25 reached without hitting a stop condition.''"

datatype message = SystemMessage string | HumanMessage string | AIMessage string

definition nl :: string where
  "nl = [CHR 0x0A]"

text \<open>Python's \<open>sep.join(xs)\<close>.\<close>

fun join :: "string \<Rightarrow> string list \<Rightarrow> string" where
  "join sep [] = []"
| "join sep [x] = x"
| "join sep (x # y # ys) = x @ sep @ join sep (y # ys)"

text \<open>Python's \<open>str(n)\<close> for a length.\<close>

definition digit_char :: "nat \<Rightarrow> char" where
  "digit_char d = char_of (48 + d)"

function str_nat :: "nat \<Rightarrow> string" where
  "str_nat n = (if n < 10 then [digit_char n] else str_nat (n div 10) @ [digit_char (n mod 10)])"
  by pat_completeness auto
termination
  by (relation "measure id") auto

definition str_int :: "int \<Rightarrow> string" where
  "str_int i = (if i < 0 then ''-'' @ str_nat (nat (- i)) else str_nat (nat i))"

text \<open>Python's \<open>int(x)\<close> on a float: truncation towards zero.\<close>

definition py_int :: "real \<Rightarrow> int" where
  "py_int x = (if 0 \<le> x then \<lfloor>x\<rfloor> else \<lceil>x\<rceil>)"

section \<open>The world outside a run\<close>

text \<open>
  The calls a run makes to its collaborators, in the order they are made. The embedding
  provider, the similarity index and the language model are called through the global
  clients of the source; the model records each call.
\<close>

datatype event =
    EmbedQuery string
  | ClientSearch "real list" nat real
  | ModelInvoke string real "message list"

record example =
  ex_text :: string
  ex_full_text :: string
  ex_label :: int
  ex_category :: string
  ex_score :: real

text \<open>A row of \<open>classification_history\<close> (\<open>models.py\<close>); \<open>created_at\<close> is left out.\<close>

record classification_history =
  h_id :: "nat option"
  h_text :: string
  h_predicted_label :: "int option"
  h_predicted_category :: "string option"
  h_confidence :: "real option"
  h_reasoning :: "string option"
  h_retrieved_examples :: "example list"
  h_num_retrieved_examples :: nat
  h_model_used :: string
  h_graph_version :: string
  h_retrieval_time_ms :: int
  h_classification_time_ms :: int
  h_total_time_ms :: int

record world =
  ticks :: nat
  calls :: "event list"
  pending :: "classification_history list"
  history_table :: "classification_history list"

text \<open>\<open>time.time()\<close>: the n-th reading of the clock.\<close>

definition time_time :: "(nat \<Rightarrow> real) \<Rightarrow> world \<Rightarrow> real \<times> world" where
  "time_time clock w = (clock (ticks w), w\<lparr>ticks := Suc (ticks w)\<rparr>)"

definition record_call :: "event \<Rightarrow> world \<Rightarrow> world" where
  "record_call ev w = w\<lparr>calls := calls w @ [ev]\<rparr>"

section \<open>The graph library\<close>

text \<open>
  The two services build their pipeline with the \<open>StateGraph\<close> of an external library.
  Its behaviour on the graphs built here: \<open>invoke\<close> starts at the entry point, runs one
  node per step, merges the dictionary the node returns into the state (each key through
  the reducer the state schema declares for it), follows the node's edge, and stops at
  \<open>END\<close>. An exception of a node ends the run. More than 25 steps raise
  \<open>GraphRecursionError\<close>.
\<close>

type_synonym ('st, 'u) node = "'st \<Rightarrow> world \<Rightarrow> (exn + 'u list) \<times> world"

record ('st, 'u) state_graph =
  schema :: "'u \<Rightarrow> 'st \<Rightarrow> 'st"
  nodes :: "(string \<times> ('st, 'u) node) list"
  entry_point :: "string option"
  edges :: "(string \<times> string) list"

definition END :: string where
  "END = ''__end__''"

definition StateGraph :: "('u \<Rightarrow> 'st \<Rightarrow> 'st) \<Rightarrow> ('st, 'u) state_graph" where
  "StateGraph sch = \<lparr>schema = sch, nodes = [], entry_point = None, edges = []\<rparr>"

definition add_node :: "string \<Rightarrow> ('st, 'u) node \<Rightarrow> ('st, 'u) state_graph \<Rightarrow> ('st, 'u) state_graph" where
  "add_node name f g = g\<lparr>nodes := nodes g @ [(name, f)]\<rparr>"

definition set_entry_point :: "string \<Rightarrow> ('st, 'u) state_graph \<Rightarrow> ('st, 'u) state_graph" where
  "set_entry_point name g = g\<lparr>entry_point := Some name\<rparr>"

definition add_edge :: "string \<Rightarrow> string \<Rightarrow> ('st, 'u) state_graph \<Rightarrow> ('st, 'u) state_graph" where
  "add_edge a b g = g\<lparr>edges := edges g @ [(a, b)]\<rparr>"

fun run_graph :: "('st, 'u) state_graph \<Rightarrow> nat \<Rightarrow> string \<Rightarrow> 'st \<Rightarrow> world \<Rightarrow> (exn + 'st) \<times> world" where
  "run_graph g fuel name st w =
     (if name = END then (Inr st, w)
      else case fuel of
        0 \<Rightarrow> (Inl GraphRecursionError, w)
      | Suc n \<Rightarrow>
         (case map_of (nodes g) name of
            None \<Rightarrow> (Inl (ValueError name), w)
          | Some node \<Rightarrow>
             (case node st w of
                (Inl e, w') \<Rightarrow> (Inl e, w')
              | (Inr upd, w') \<Rightarrow>
                 (case map_of (edges g) name of
                    None \<Rightarrow> (Inr (fold (schema g) upd st), w')
                  | Some nxt \<Rightarrow> run_graph g n nxt (fold (schema g) upd st) w'))))"

definition invoke :: "('st, 'u) state_graph \<Rightarrow> 'st \<Rightarrow> world \<Rightarrow> (exn + 'st) \<times> world" where
  "invoke g st w =
     (case entry_point g of
        None \<Rightarrow> (Inl (ValueError ''no entry point''), w)
      | Some name \<Rightarrow> run_graph g 25 name st w)"

declare run_graph.simps [simp del]

section \<open>The classification service (task 1)\<close>

subsection \<open>The collaborators\<close>

text \<open>
  What the index stores with a vector (\<open>index_training_data\<close> writes these four keys),
  and a hit of \<open>client.search\<close>.
\<close>

record payload =
  payload_text :: string
  payload_full_text :: string
  payload_label :: int
  payload_category :: string

record scored_point =
  sp_payload :: payload
  sp_score :: real

record classification_result =
  res_label :: int
  res_category :: string
  res_confidence :: real
  res_reasoning :: string

text \<open>
  The global clients of the source, as parameters: the clock, the embedding provider,
  the index client, the constructor of the chat model (it can raise; the model it returns
  answers a list of messages or raises) and Python's \<open>:.2f\<close> float format.
\<close>

record classifier_env =
  clock :: "nat \<Rightarrow> real"
  embed_query :: "string \<Rightarrow> exn + real list"
  client_search :: "real list \<Rightarrow> nat \<Rightarrow> real \<Rightarrow> exn + scored_point list"
  ChatOpenAI :: "string \<Rightarrow> real \<Rightarrow> exn + (message list \<Rightarrow> exn + classification_result)"
  format_2f :: "real \<Rightarrow> string"

text \<open>\<open>settings.categories\<close> (\<open>config.py\<close>).\<close>

definition settings_categories :: "(int \<times> string) list" where
  "settings_categories =
     [(0, ''Politics''), (1, ''Sport''), (2, ''Technology''), (3, ''Entertainment''), (4, ''Business'')]"

subsection \<open>\<open>vectorstore.py\<close>\<close>

definition format_result :: "scored_point \<Rightarrow> example" where
  "format_result result =
     \<lparr>ex_text = payload_text (sp_payload result),
      ex_full_text = payload_full_text (sp_payload result),
      ex_label = payload_label (sp_payload result),
      ex_category = payload_category (sp_payload result),
      ex_score = sp_score result\<rparr>"

definition search_similar ::
  "classifier_env \<Rightarrow> string \<Rightarrow> nat \<Rightarrow> real \<Rightarrow> world \<Rightarrow> (exn + example list) \<times> world" where
  "search_similar env query_text limit score_threshold w =
     (let w1 = record_call (EmbedQuery query_text) w in
      case embed_query env query_text of
        Inl e \<Rightarrow> (Inl e, w1)
      | Inr query_embedding \<Rightarrow>
         (let w2 = record_call (ClientSearch query_embedding limit score_threshold) w1 in
          case client_search env query_embedding limit score_threshold of
            Inl e \<Rightarrow> (Inl e, w2)
          | Inr search_results \<Rightarrow> (Inr (map format_result search_results), w2)))"

subsection \<open>\<open>state.py\<close>\<close>

record classifier_state =
  state_text :: string
  messages :: "message list"
  retrieved_examples :: "example list"
  predicted_label :: "int option"
  predicted_category :: "string option"
  confidence :: "real option"
  reasoning :: "string option"
  retrieval_time :: real
  classification_time :: real

text \<open>
  A node returns a dictionary: a list of writes, one constructor for each key of
  \<open>ClassifierState\<close>.
\<close>

datatype classifier_write =
    Write_text string
  | Write_messages "message list"
  | Write_retrieved_examples "example list"
  | Write_predicted_label int
  | Write_predicted_category string
  | Write_confidence real
  | Write_reasoning string
  | Write_retrieval_time real
  | Write_classification_time real

fun write_key :: "classifier_write \<Rightarrow> string" where
  "write_key (Write_text _) = ''text''"
| "write_key (Write_messages _) = ''messages''"
| "write_key (Write_retrieved_examples _) = ''retrieved_examples''"
| "write_key (Write_predicted_label _) = ''predicted_label''"
| "write_key (Write_predicted_category _) = ''predicted_category''"
| "write_key (Write_confidence _) = ''confidence''"
| "write_key (Write_reasoning _) = ''reasoning''"
| "write_key (Write_retrieval_time _) = ''retrieval_time''"
| "write_key (Write_classification_time _) = ''classification_time''"

text \<open>
  How the library merges a write into the state: \<open>messages\<close> is annotated with the
  reducer \<open>add_messages\<close>, which appends; every other key is overwritten.
\<close>

definition add_messages :: "message list \<Rightarrow> message list \<Rightarrow> message list" where
  "add_messages left right = left @ right"

fun ClassifierState :: "classifier_write \<Rightarrow> classifier_state \<Rightarrow> classifier_state" where
  "ClassifierState (Write_text v) st = st\<lparr>state_text := v\<rparr>"
| "ClassifierState (Write_messages v) st = st\<lparr>messages := add_messages (messages st) v\<rparr>"
| "ClassifierState (Write_retrieved_examples v) st = st\<lparr>retrieved_examples := v\<rparr>"
| "ClassifierState (Write_predicted_label v) st = st\<lparr>predicted_label := Some v\<rparr>"
| "ClassifierState (Write_predicted_category v) st = st\<lparr>predicted_category := Some v\<rparr>"
| "ClassifierState (Write_confidence v) st = st\<lparr>confidence := Some v\<rparr>"
| "ClassifierState (Write_reasoning v) st = st\<lparr>reasoning := Some v\<rparr>"
| "ClassifierState (Write_retrieval_time v) st = st\<lparr>retrieval_time := v\<rparr>"
| "ClassifierState (Write_classification_time v) st = st\<lparr>classification_time := v\<rparr>"

subsection \<open>\<open>nodes.py\<close>\<close>

text \<open>
  The schema \<open>ClassificationResult\<close>: \<open>label\<close> within 0..4, \<open>confidence\<close> within 0..1.
  \<open>with_structured_output\<close> validates what the model returns against it.
\<close>

definition ClassificationResult :: "classification_result \<Rightarrow> exn + classification_result" where
  "ClassificationResult r =
     (if res_label r < 0 \<or> 4 < res_label r then Inl (ValidationError ''label'')
      else if res_confidence r < 0 \<or> 1 < res_confidence r then Inl (ValidationError ''confidence'')
      else Inr r)"

definition with_structured_output ::
  "('r \<Rightarrow> exn + 'r) \<Rightarrow> (message list \<Rightarrow> exn + 'r) \<Rightarrow> message list \<Rightarrow> exn + 'r" where
  "with_structured_output validate model msgs =
     (case model msgs of Inl e \<Rightarrow> Inl e | Inr out \<Rightarrow> validate out)"

definition retrieve_node :: "classifier_env \<Rightarrow> (classifier_state, classifier_write) node" where
  "retrieve_node env state w0 =
     (let (start_time, w1) = time_time (clock env) w0 in
      case search_similar env (state_text state) 5 0.6 w1 of
        (Inl e, w2) \<Rightarrow> (Inl e, w2)
      | (Inr similar_examples, w2) \<Rightarrow>
         (let (end_time, w3) = time_time (clock env) w2;
              elapsed = end_time - start_time;
              retrieval_msg = SystemMessage
                (''Retrieved '' @ str_nat (length similar_examples) @
                 '' similar examples from training data'')
          in (Inr [Write_retrieved_examples similar_examples,
                   Write_retrieval_time elapsed,
                   Write_messages [retrieval_msg]], w3)))"

definition format_example :: "(real \<Rightarrow> string) \<Rightarrow> nat \<times> example \<Rightarrow> string" where
  "format_example fmt p =
     (case p of (i, ex) \<Rightarrow>
        ''Example '' @ str_nat i @ '' (Label: '' @ str_int (ex_label ex) @ '' - '' @
        ex_category ex @ '', Similarity: '' @ fmt (ex_score ex) @ ''):'' @ nl @
        take 300 (ex_text ex) @ ''...'')"

definition format_examples :: "(real \<Rightarrow> string) \<Rightarrow> example list \<Rightarrow> string" where
  "format_examples fmt examples =
     (if examples = [] then ''No similar examples found.''
      else join (nl @ nl) (map (format_example fmt) (enumerate 1 examples)))"

definition system_prompt :: "string \<Rightarrow> string" where
  "system_prompt examples_text = join nl
     [''You are a news article classifier. You must classify articles into one of these categories:'',
      '''',
      ''0 - Politics: Government, elections, policies, international relations, politicians'',
      ''1 - Sport: Sports events, athletes, competitions, games'',
      ''2 - Technology: Tech companies, software, hardware, innovations, digital trends'',
      ''3 - Entertainment: Movies, music, celebrities, TV shows, arts, culture'',
      ''4 - Business: Economy, finance, markets, companies, business deals'',
      '''',
      ''Here are similar examples from our training data to help you classify:'',
      '''',
      examples_text,
      '''',
      ''Based on these examples, classify the new article below.'',
      ''Be consistent with the pattern you see in the examples.'']"

definition classify_user_message :: "classifier_state \<Rightarrow> string" where
  "classify_user_message state = ''Classify this article:'' @ nl @ nl @ take 2000 (state_text state)"

definition classify_messages :: "(real \<Rightarrow> string) \<Rightarrow> classifier_state \<Rightarrow> message list" where
  "classify_messages fmt state =
     [SystemMessage (system_prompt (format_examples fmt (retrieved_examples state))),
      HumanMessage (classify_user_message state)]"

text \<open>The \<open>try\<close> of \<open>classify_node\<close> with its \<open>except Exception\<close> branch.\<close>

definition classify_try ::
  "(message list \<Rightarrow> exn + classification_result) \<Rightarrow> message list \<Rightarrow>
   exn + (int \<times> string \<times> real \<times> string)" where
  "classify_try model msgs =
     (case model msgs of
        Inr result \<Rightarrow>
          Inr (res_label result, res_category result, res_confidence result, res_reasoning result)
      | Inl e \<Rightarrow>
         (case map_of settings_categories 0 of
            None \<Rightarrow> Inl (KeyError ''0'')
          | Some c \<Rightarrow> Inr (0, c, 0, ''Error during classification: '' @ exn_str e)))"

definition classify_node :: "classifier_env \<Rightarrow> (classifier_state, classifier_write) node" where
  "classify_node env state w0 =
     (let (start_time, w1) = time_time (clock env) w0 in
      case ChatOpenAI env ''gpt-4.1'' 0 of
        Inl e \<Rightarrow> (Inl e, w1)
      | Inr chat \<Rightarrow>
         (let model = with_structured_output ClassificationResult chat;
              msgs = classify_messages (format_2f env) state;
              w2 = record_call (ModelInvoke ''gpt-4.1'' 0 msgs) w1
          in case classify_try model msgs of
               Inl e \<Rightarrow> (Inl e, w2)
             | Inr (label, category, conf, reason) \<Rightarrow>
                (let (end_time, w3) = time_time (clock env) w2;
                     elapsed = end_time - start_time
                 in (Inr [Write_predicted_label label,
                          Write_predicted_category category,
                          Write_confidence conf,
                          Write_reasoning reason,
                          Write_classification_time elapsed,
                          Write_messages
                            [HumanMessage (''Classified as '' @ category @ '' with '' @
                               format_2f env conf @ '' confidence'')]], w3))))"

subsection \<open>\<open>graph.py\<close>\<close>

definition create_classifier_graph ::
  "classifier_env \<Rightarrow> (classifier_state, classifier_write) state_graph" where
  "create_classifier_graph env =
     add_edge ''classify'' END
       (add_edge ''retrieve'' ''classify''
         (set_entry_point ''retrieve''
           (add_node ''classify'' (classify_node env)
             (add_node ''retrieve'' (retrieve_node env)
               (StateGraph ClassifierState)))))"

subsection \<open>\<open>schemas.py\<close>\<close>

record classify_request =
  request_message :: string

text \<open>\<open>ClassifyRequest\<close>: \<open>message\<close> has \<open>min_length=1\<close> and \<open>max_length=10000\<close>.\<close>

definition ClassifyRequest :: "string \<Rightarrow> exn + classify_request" where
  "ClassifyRequest msg =
     (if length msg < 1 then Inl (ValidationError ''string_too_short'')
      else if 10000 < length msg then Inl (ValidationError ''string_too_long'')
      else Inr \<lparr>request_message = msg\<rparr>)"

record retrieved_example =
  re_text :: string
  re_label :: int
  re_category :: string
  re_score :: real

definition RetrievedExample :: "example \<Rightarrow> retrieved_example" where
  "RetrievedExample ex =
     \<lparr>re_text = ex_text ex, re_label = ex_label ex,
      re_category = ex_category ex, re_score = ex_score ex\<rparr>"

record classify_response =
  resp_predicted_label :: int
  resp_predicted_category :: string
  resp_confidence :: "real option"
  resp_reasoning :: "string option"
  resp_text :: string
  resp_retrieved_examples :: "retrieved_example list option"
  resp_retrieval_time_ms :: int
  resp_classification_time_ms :: int

subsection \<open>The database session\<close>

text \<open>
  \<open>db.add\<close> queues a row, \<open>db.commit\<close> stores the queued rows and gives each its id,
  \<open>db.rollback\<close> drops the queue. \<open>predicted_label\<close> and \<open>predicted_category\<close> are
  declared \<open>nullable=False\<close> (\<open>models.py\<close>): a commit of a row without them raises.
\<close>

definition db_add :: "classification_history \<Rightarrow> world \<Rightarrow> world" where
  "db_add row w = w\<lparr>pending := pending w @ [row]\<rparr>"

definition db_rollback :: "world \<Rightarrow> world" where
  "db_rollback w = w\<lparr>pending := []\<rparr>"

definition db_commit :: "world \<Rightarrow> (exn + unit) \<times> world" where
  "db_commit w =
     (if list_ex (\<lambda>row. h_predicted_label row = None \<or> h_predicted_category row = None) (pending w)
      then (Inl (IntegrityError ''NOT NULL constraint failed''), w)
      else (Inr (),
            w\<lparr>history_table := history_table w @
                 map (\<lambda>(i, row). row\<lparr>h_id := Some i\<rparr>)
                   (enumerate (Suc (length (history_table w))) (pending w)),
              pending := []\<rparr>))"

subsection \<open>\<open>main.py\<close>\<close>

datatype http_error = HTTPException nat string

definition initial_state :: "classify_request \<Rightarrow> classifier_state" where
  "initial_state request =
     \<lparr>state_text = request_message request,
      messages = [],
      retrieved_examples = [],
      predicted_label = None,
      predicted_category = None,
      confidence = None,
      reasoning = None,
      retrieval_time = 0,
      classification_time = 0\<rparr>"

text \<open>The body of the \<open>try\<close> of \<open>classify_text\<close>.\<close>

definition classify_text_try ::
  "classifier_env \<Rightarrow> classify_request \<Rightarrow> bool \<Rightarrow> world \<Rightarrow> (exn + classify_response) \<times> world" where
  "classify_text_try env request include_examples w0 =
     (let (start_time, w1) = time_time (clock env) w0 in
      case invoke (create_classifier_graph env) (initial_state request) w1 of
        (Inl e, w2) \<Rightarrow> (Inl e, w2)
      | (Inr final_state, w2) \<Rightarrow>
         (let (end_time, w3) = time_time (clock env) w2;
              total_time = end_time - start_time;
              retrieval_time_ms = py_int (retrieval_time final_state * 1000);
              classification_time_ms = py_int (classification_time final_state * 1000);
              total_time_ms = py_int (total_time * 1000);
              history_record =
                \<lparr>h_id = None,
                 h_text = request_message request,
                 h_predicted_label = predicted_label final_state,
                 h_predicted_category = predicted_category final_state,
                 h_confidence = confidence final_state,
                 h_reasoning = reasoning final_state,
                 h_retrieved_examples = retrieved_examples final_state,
                 h_num_retrieved_examples = length (retrieved_examples final_state),
                 h_model_used = ''gpt-4.1'',
                 h_graph_version = ''v1.0'',
                 h_retrieval_time_ms = retrieval_time_ms,
                 h_classification_time_ms = classification_time_ms,
                 h_total_time_ms = total_time_ms\<rparr>
          in case db_commit (db_add history_record w3) of
               (Inl e, w4) \<Rightarrow> (Inl e, w4)
             | (Inr _, w4) \<Rightarrow>
                (case (predicted_label final_state, predicted_category final_state) of
                   (Some label, Some category) \<Rightarrow>
                     (Inr \<lparr>resp_predicted_label = label,
                           resp_predicted_category = category,
                           resp_confidence = confidence final_state,
                           resp_reasoning = reasoning final_state,
                           resp_text = request_message request,
                           resp_retrieved_examples =
                             (if include_examples
                              then Some (map RetrievedExample (retrieved_examples final_state))
                              else None),
                           resp_retrieval_time_ms = retrieval_time_ms,
                           resp_classification_time_ms = classification_time_ms\<rparr>, w4)
                 | _ \<Rightarrow> (Inl (ValidationError ''ClassifyResponse''), w4))))"

text \<open>\<open>classify_text\<close>: the \<open>try\<close> and its \<open>except Exception\<close>.\<close>

definition classify_text ::
  "classifier_env \<Rightarrow> classify_request \<Rightarrow> bool \<Rightarrow> world \<Rightarrow> (http_error + classify_response) \<times> world" where
  "classify_text env request include_examples w0 =
     (case classify_text_try env request include_examples w0 of
        (Inr response, w) \<Rightarrow> (Inr response, w)
      | (Inl e, w) \<Rightarrow>
          (Inl (HTTPException 500 (''Classification failed: '' @ exn_str e)), db_rollback w))"

text \<open>
  The route \<open>POST /classify\<close>: the web framework builds the \<open>ClassifyRequest\<close> from the
  body and answers 422 without calling the handler when the body does not validate
  (\<open>test_classify_invalid_input\<close>).
\<close>

definition post_classify ::
  "classifier_env \<Rightarrow> string \<Rightarrow> bool \<Rightarrow> world \<Rightarrow> (http_error + classify_response) \<times> world" where
  "post_classify env body include_examples w =
     (case ClassifyRequest body of
        Inl e \<Rightarrow> (Inl (HTTPException 422 (exn_str e)), w)
      | Inr request \<Rightarrow> classify_text env request include_examples w)"

section \<open>The chat service (task 2)\<close>

record chat_response =
  response :: string

definition ChatResponse :: "chat_response \<Rightarrow> exn + chat_response" where
  "ChatResponse r = Inr r"

text \<open>The constructor of the chat model, as a parameter; the settings of \<open>config.py\<close>.\<close>

record chatbot_env =
  ChatOpenAI_chat :: "string \<Rightarrow> real \<Rightarrow> exn + (message list \<Rightarrow> exn + chat_response)"

definition openai_model :: string where
  "openai_model = ''gpt-4o-mini''"

definition openai_temperature :: real where
  "openai_temperature = 0.7"

text \<open>A message of the history is a dictionary with the keys \<open>sender\<close> and \<open>text\<close>.\<close>

type_synonym history_message = "(string \<times> string) list"

record chatbot_state =
  conversation_id :: string
  user_message :: string
  conversation_history :: "history_message list"
  formatted_history :: string
  assistant_response :: string
  model_used :: string
  chat_messages :: "message list"

datatype chatbot_write =
    Write_conversation_id string
  | Write_user_message string
  | Write_conversation_history "history_message list"
  | Write_formatted_history string
  | Write_assistant_response string
  | Write_model_used string
  | Write_chat_messages "message list"

fun ChatbotState :: "chatbot_write \<Rightarrow> chatbot_state \<Rightarrow> chatbot_state" where
  "ChatbotState (Write_conversation_id v) st = st\<lparr>conversation_id := v\<rparr>"
| "ChatbotState (Write_user_message v) st = st\<lparr>user_message := v\<rparr>"
| "ChatbotState (Write_conversation_history v) st = st\<lparr>conversation_history := v\<rparr>"
| "ChatbotState (Write_formatted_history v) st = st\<lparr>formatted_history := v\<rparr>"
| "ChatbotState (Write_assistant_response v) st = st\<lparr>assistant_response := v\<rparr>"
| "ChatbotState (Write_model_used v) st = st\<lparr>model_used := v\<rparr>"
| "ChatbotState (Write_chat_messages v) st = st\<lparr>chat_messages := add_messages (chat_messages st) v\<rparr>"

text \<open>Python's \<open>d.get(key, default)\<close> and \<open>str.capitalize\<close> (on ASCII letters).\<close>

definition dict_get :: "(string \<times> string) list \<Rightarrow> string \<Rightarrow> string \<Rightarrow> string" where
  "dict_get d key dflt = (case map_of d key of None \<Rightarrow> dflt | Some v \<Rightarrow> v)"

definition upper_char :: "char \<Rightarrow> char" where
  "upper_char c =
     (let n = (of_char c :: nat) in if 97 \<le> n \<and> n \<le> 122 then char_of (n - 32) else c)"

definition lower_char :: "char \<Rightarrow> char" where
  "lower_char c =
     (let n = (of_char c :: nat) in if 65 \<le> n \<and> n \<le> 90 then char_of (n + 32) else c)"

fun capitalize :: "string \<Rightarrow> string" where
  "capitalize [] = []"
| "capitalize (c # cs) = upper_char c # map lower_char cs"

definition format_line :: "history_message \<Rightarrow> string" where
  "format_line msg =
     (let sender = dict_get msg ''sender'' ''unknown'';
          txt = dict_get msg ''text'' ''''
      in capitalize sender @ '': '' @ txt)"

text \<open>The slice \<open>xs[-10:]\<close>.\<close>

definition last_10 :: "'a list \<Rightarrow> 'a list" where
  "last_10 xs = drop (length xs - 10) xs"

definition retrieve_context_node :: "(chatbot_state, chatbot_write) node" where
  "retrieve_context_node state w =
     (let history = conversation_history state;
          formatted =
            (if history \<noteq> [] then join nl (map format_line (last_10 history))
             else ''This is the start of a new conversation.'');
          context_message = SystemMessage
            (''Retrieved conversation context ('' @ str_nat (length history) @ '' messages)'')
      in (Inr [Write_formatted_history formatted, Write_chat_messages [context_message]], w))"

definition chat_system_prompt :: "string \<Rightarrow> string" where
  "chat_system_prompt history = join nl
     [''You are a helpful, friendly AI assistant engaged in a conversation.'',
      '''',
      ''Previous conversation:'',
      history,
      '''',
      ''Instructions:'',
      ''- Be conversational and natural'',
      ''- Consider the conversation history when responding'',
      ''- Be helpful and informative'',
      ''- Keep responses concise but complete'',
      ''- Maintain context from previous messages'']"

definition chat_prompt :: "chatbot_state \<Rightarrow> message list" where
  "chat_prompt state =
     [SystemMessage (chat_system_prompt (formatted_history state)),
      HumanMessage (''User: '' @ user_message state)]"

definition apology :: string where
  "apology = ''I apologize, but I encountered an error generating a response. Please try again.''"

definition generate_response_node :: "chatbot_env \<Rightarrow> (chatbot_state, chatbot_write) node" where
  "generate_response_node env state w0 =
     (case ChatOpenAI_chat env openai_model openai_temperature of
        Inl e \<Rightarrow> (Inl e, w0)
      | Inr chat \<Rightarrow>
         (let model = with_structured_output ChatResponse chat;
              msgs = chat_prompt state;
              w1 = record_call (ModelInvoke openai_model openai_temperature msgs) w0;
              answer = (case model msgs of Inr result \<Rightarrow> response result | Inl e \<Rightarrow> apology)
          in (Inr [Write_assistant_response answer,
                   Write_model_used openai_model,
                   Write_chat_messages [AIMessage answer]], w1)))"

definition chatbot_graph :: "chatbot_env \<Rightarrow> (chatbot_state, chatbot_write) state_graph" where
  "chatbot_graph env =
     add_edge ''generate_response'' END
       (add_edge ''retrieve_context'' ''generate_response''
         (set_entry_point ''retrieve_context''
           (add_node ''generate_response'' (generate_response_node env)
             (add_node ''retrieve_context'' retrieve_context_node
               (StateGraph ChatbotState)))))"

section \<open>The similarity index\<close>

text \<open>
  The points of the collection, in the order they were inserted.
\<close>

record point =
  point_vector :: "real list"
  point_payload :: payload

definition score_point :: "(real list \<Rightarrow> real list \<Rightarrow> real) \<Rightarrow> real list \<Rightarrow> point \<Rightarrow> scored_point" where
  "score_point sim q p = \<lparr>sp_payload = point_payload p, sp_score = sim q (point_vector p)\<rparr>"

text \<open>
  Modelled from the spec: the search of the Similarity Index. The index client is an
  external library and its code is not among the sources; \<open>search_similar\<close> only hands
  it the query vector, the limit and the threshold. Section 4.1 of the spec: query the
  index for the \<open>top_k\<close> nearest neighbors by similarity; discard any neighbor whose
  similarity is strictly below \<open>score_threshold\<close>; return the remaining neighbors ordered
  by descending similarity, ties broken by index insertion order (stable). The similarity
  of the collection is a parameter.
\<close>

definition index_search ::
  "(real list \<Rightarrow> real list \<Rightarrow> real) \<Rightarrow> point list \<Rightarrow> real list \<Rightarrow> nat \<Rightarrow> real \<Rightarrow> scored_point list" where
  "index_search sim points q top_k score_threshold =
     filter (\<lambda>r. \<not> sp_score r < score_threshold)
       (take top_k (sort_key (\<lambda>r. - sp_score r) (map (score_point sim q) points)))"

text \<open>The collaborators \<open>env\<close> with this index behind \<open>client.search\<close>.\<close>

definition with_index ::
  "classifier_env \<Rightarrow> (real list \<Rightarrow> real list \<Rightarrow> real) \<Rightarrow> point list \<Rightarrow> classifier_env" where
  "with_index env sim points =
     env\<lparr>client_search := (\<lambda>q top_k score_threshold. Inr (index_search sim points q top_k score_threshold))\<rparr>"

section \<open>Observations on a run\<close>

text \<open>The keys of the dictionary a node returned (none when it raised).\<close>

definition written_keys :: "(exn + classifier_write list) \<times> world \<Rightarrow> string list" where
  "written_keys r = (case fst r of Inl e \<Rightarrow> [] | Inr upd \<Rightarrow> map write_key upd)"

text \<open>How often the language model was called.\<close>

fun is_model_invoke :: "event \<Rightarrow> bool" where
  "is_model_invoke (ModelInvoke name temperature msgs) = True"
| "is_model_invoke (EmbedQuery t) = False"
| "is_model_invoke (ClientSearch q k thr) = False"

definition model_invocations :: "world \<Rightarrow> nat" where
  "model_invocations w = length (filter is_model_invoke (calls w))"

section \<open>Deterministic stubs\<close>

definition stub_world :: world where
  "stub_world = \<lparr>ticks = 0, calls = [], pending = [], history_table = []\<rparr>"

definition stub_result :: classification_result where
  "stub_result =
     \<lparr>res_label = 2, res_category = ''Technology'', res_confidence = 0.9,
      res_reasoning = ''The article is about a product of a tech company.''\<rparr>"

definition stub_env :: classifier_env where
  "stub_env =
     \<lparr>clock = real,
      embed_query = (\<lambda>t. Inr [1, 0]),
      client_search = (\<lambda>q k thr. Inr []),
      ChatOpenAI = (\<lambda>name temperature. Inr (\<lambda>msgs. Inr stub_result)),
      format_2f = (\<lambda>x. ''0.00'')\<rparr>"

definition stub_request :: classify_request where
  "stub_request = \<lparr>request_message = ''Apple announces new iPhone''\<rparr>"

definition dot :: "real list \<Rightarrow> real list \<Rightarrow> real" where
  "dot u v = sum_list (map2 (*) u v)"

definition stub_payload :: "string \<Rightarrow> payload" where
  "stub_payload t =
     \<lparr>payload_text = t, payload_full_text = t, payload_label = 2, payload_category = ''Technology''\<rparr>"

definition stub_points :: "point list" where
  "stub_points =
     [\<lparr>point_vector = [1, 0], point_payload = stub_payload ''first''\<rparr>,
      \<lparr>point_vector = [1 / 2, 0], point_payload = stub_payload ''second''\<rparr>,
      \<lparr>point_vector = [1, 0], point_payload = stub_payload ''third''\<rparr>,
      \<lparr>point_vector = [4 / 5, 3 / 5], point_payload = stub_payload ''fourth''\<rparr>]"


definition stub_chat_state :: "history_message list \<Rightarrow> chatbot_state" where
  "stub_chat_state history =
     \<lparr>conversation_id = ''conv_123'',
      user_message = ''Hello! How are you?'',
      conversation_history = history,
      formatted_history = '''',
      assistant_response = '''',
      model_used = '''',
      chat_messages = []\<rparr>"


definition embedding_down_env :: classifier_env where
  "embedding_down_env = stub_env\<lparr>embed_query := (\<lambda>t. Inl (ExternalError ''connection refused''))\<rparr>"

definition index_down_env :: classifier_env where
  "index_down_env = stub_env\<lparr>client_search := (\<lambda>q k thr. Inl (ExternalError ''index unavailable''))\<rparr>"

definition stub_example :: "string \<Rightarrow> real \<Rightarrow> example" where
  "stub_example t s =
     \<lparr>ex_text = t, ex_full_text = t, ex_label = 2, ex_category = ''Technology'', ex_score = s\<rparr>"

definition stub_hits :: "example list" where
  "stub_hits = [stub_example ''first'' 1, stub_example ''third'' 1, stub_example ''fourth'' (4 / 5)]"

definition stub_message :: "string \<Rightarrow> string \<Rightarrow> history_message" where
  "stub_message sender txt = [(''sender'', sender), (''text'', txt)]"


section \<open>Lemmas on the model\<close>

lemma classifier_graph_fields:
  "entry_point (create_classifier_graph env) = Some ''retrieve''"
  "nodes (create_classifier_graph env) = [(''retrieve'', retrieve_node env), (''classify'', classify_node env)]"
  "edges (create_classifier_graph env) = [(''retrieve'', ''classify''), (''classify'', END)]"
  "schema (create_classifier_graph env) = ClassifierState"
  by (simp_all add: create_classifier_graph_def add_edge_def add_node_def set_entry_point_def StateGraph_def)

lemma run_graph_END: "run_graph g fuel END st w = (Inr st, w)"
  by (simp add: run_graph.simps)

lemma run_graph_step:
  assumes "name \<noteq> END" "map_of (nodes g) name = Some node" "map_of (edges g) name = Some nxt"
  shows "run_graph g (Suc n) name st w =
     (case node st w of
        (Inl e, w') \<Rightarrow> (Inl e, w')
      | (Inr upd, w') \<Rightarrow> run_graph g n nxt (fold (schema g) upd st) w')"
  using assms by (subst run_graph.simps) (simp split: prod.splits sum.splits)

lemma invoke_classifier:
  "invoke (create_classifier_graph env) st w =
     (case retrieve_node env st w of
        (Inl e, w1) \<Rightarrow> (Inl e, w1)
      | (Inr u1, w1) \<Rightarrow>
         (case classify_node env (fold ClassifierState u1 st) w1 of
            (Inl e, w2) \<Rightarrow> (Inl e, w2)
          | (Inr u2, w2) \<Rightarrow> (Inr (fold ClassifierState u2 (fold ClassifierState u1 st)), w2)))"
proof -
  let ?g = "create_classifier_graph env"
  have a: "run_graph ?g 25 ''retrieve'' st w =
     (case retrieve_node env st w of
        (Inl e, w') \<Rightarrow> (Inl e, w')
      | (Inr upd, w') \<Rightarrow> run_graph ?g 24 ''classify'' (fold (schema ?g) upd st) w')"
    using run_graph_step [of "''retrieve''" ?g "retrieve_node env" "''classify''" 24 st w]
    by (simp add: classifier_graph_fields END_def)
  have b: "run_graph ?g 24 ''classify'' st' w' =
     (case classify_node env st' w' of
        (Inl e, w2) \<Rightarrow> (Inl e, w2)
      | (Inr upd, w2) \<Rightarrow> run_graph ?g 23 END (fold (schema ?g) upd st') w2)" for st' w'
    using run_graph_step [of "''classify''" ?g "classify_node env" END 23 st' w']
    by (simp add: classifier_graph_fields END_def)
  show ?thesis
    by (simp add: invoke_def classifier_graph_fields(1) a b run_graph_END classifier_graph_fields(4)
        split: prod.splits sum.splits)
qed

lemma search_similar_embed_fail:
  "embed_query env t = Inl e \<Longrightarrow>
   search_similar env t k thr w = (Inl e, record_call (EmbedQuery t) w)"
  by (simp add: search_similar_def)

lemma search_similar_search_fail:
  "embed_query env t = Inr q \<Longrightarrow> client_search env q k thr = Inl e \<Longrightarrow>
   search_similar env t k thr w =
     (Inl e, record_call (ClientSearch q k thr) (record_call (EmbedQuery t) w))"
  by (simp add: search_similar_def)

lemma search_similar_ok:
  "embed_query env t = Inr q \<Longrightarrow> client_search env q k thr = Inr rs \<Longrightarrow>
   search_similar env t k thr w =
     (Inr (map format_result rs), record_call (ClientSearch q k thr) (record_call (EmbedQuery t) w))"
  by (simp add: search_similar_def)

lemma retrieve_node_embed_fail:
  "embed_query env (state_text st) = Inl e \<Longrightarrow>
   retrieve_node env st w =
     (Inl e, record_call (EmbedQuery (state_text st)) (snd (time_time (clock env) w)))"
  by (simp add: retrieve_node_def search_similar_embed_fail split: prod.splits)

lemma retrieve_node_search_fail:
  "embed_query env (state_text st) = Inr q \<Longrightarrow> client_search env q 5 0.6 = Inl e \<Longrightarrow>
   retrieve_node env st w =
     (Inl e, record_call (ClientSearch q 5 0.6)
               (record_call (EmbedQuery (state_text st)) (snd (time_time (clock env) w))))"
  by (simp add: retrieve_node_def search_similar_search_fail split: prod.splits)

lemma retrieve_node_ok:
  "embed_query env (state_text st) = Inr q \<Longrightarrow> client_search env q 5 0.6 = Inr rs \<Longrightarrow>
   retrieve_node env st w =
     (Inr [Write_retrieved_examples (map format_result rs),
           Write_retrieval_time (clock env (Suc (ticks w)) - clock env (ticks w)),
           Write_messages [SystemMessage (''Retrieved '' @ str_nat (length rs) @
                 '' similar examples from training data'')]],
      (record_call (ClientSearch q 5 0.6)
               (record_call (EmbedQuery (state_text st)) (snd (time_time (clock env) w))))\<lparr>ticks := ticks w + 2\<rparr>)"
  by (simp add: retrieve_node_def search_similar_ok time_time_def record_call_def split: prod.splits)

lemma first_category: "map_of settings_categories 0 = Some ''Politics''"
  by (simp add: settings_categories_def)

lemma classify_try_failure:
  "model msgs = Inl e \<Longrightarrow>
   classify_try model msgs = Inr (0, ''Politics'', 0, ''Error during classification: '' @ exn_str e)"
  by (simp add: classify_try_def first_category)

lemma classify_try_success:
  "model msgs = Inr r \<Longrightarrow>
   classify_try model msgs = Inr (res_label r, res_category r, res_confidence r, res_reasoning r)"
  by (simp add: classify_try_def)

lemma classify_try_total: "\<exists>l c x r. classify_try model msgs = Inr (l, c, x, r)"
  by (cases "model msgs") (simp_all add: classify_try_failure classify_try_success)

lemma classify_node_run:
  assumes "ChatOpenAI env ''gpt-4.1'' 0 = Inr chat"
    and "classify_try (with_structured_output ClassificationResult chat)
           (classify_messages (format_2f env) st) = Inr (l, c, x, r)"
  shows "classify_node env st w =
     (Inr [Write_predicted_label l, Write_predicted_category c, Write_confidence x,
           Write_reasoning r,
           Write_classification_time (clock env (Suc (ticks w)) - clock env (ticks w)),
           Write_messages [HumanMessage (''Classified as '' @ c @ '' with '' @
                               format_2f env x @ '' confidence'')]],
      w\<lparr>ticks := ticks w + 2,
         calls := calls w @ [ModelInvoke ''gpt-4.1'' 0 (classify_messages (format_2f env) st)]\<rparr>)"
  using assms
  by (simp add: classify_node_def time_time_def record_call_def split: prod.splits)

lemma classify_node_construct_fail:
  "ChatOpenAI env ''gpt-4.1'' 0 = Inl e \<Longrightarrow>
   classify_node env st w = (Inl e, w\<lparr>ticks := Suc (ticks w)\<rparr>)"
  by (simp add: classify_node_def time_time_def split: prod.splits)


lemma chatbot_graph_fields:
  "entry_point (chatbot_graph env) = Some ''retrieve_context''"
  "nodes (chatbot_graph env) =
     [(''retrieve_context'', retrieve_context_node), (''generate_response'', generate_response_node env)]"
  "edges (chatbot_graph env) =
     [(''retrieve_context'', ''generate_response''), (''generate_response'', END)]"
  "schema (chatbot_graph env) = ChatbotState"
  by (simp_all add: chatbot_graph_def add_edge_def add_node_def set_entry_point_def StateGraph_def)

lemma invoke_chatbot:
  "invoke (chatbot_graph env) st w =
     (case retrieve_context_node st w of
        (Inl e, w1) \<Rightarrow> (Inl e, w1)
      | (Inr u1, w1) \<Rightarrow>
         (case generate_response_node env (fold ChatbotState u1 st) w1 of
            (Inl e, w2) \<Rightarrow> (Inl e, w2)
          | (Inr u2, w2) \<Rightarrow> (Inr (fold ChatbotState u2 (fold ChatbotState u1 st)), w2)))"
proof -
  let ?g = "chatbot_graph env"
  have a: "run_graph ?g 25 ''retrieve_context'' st w =
     (case retrieve_context_node st w of
        (Inl e, w') \<Rightarrow> (Inl e, w')
      | (Inr upd, w') \<Rightarrow> run_graph ?g 24 ''generate_response'' (fold (schema ?g) upd st) w')"
    using run_graph_step [of "''retrieve_context''" ?g retrieve_context_node "''generate_response''" 24 st w]
    by (simp add: chatbot_graph_fields END_def)
  have b: "run_graph ?g 24 ''generate_response'' st' w' =
     (case generate_response_node env st' w' of
        (Inl e, w2) \<Rightarrow> (Inl e, w2)
      | (Inr upd, w2) \<Rightarrow> run_graph ?g 23 END (fold (schema ?g) upd st') w2)" for st' w'
    using run_graph_step [of "''generate_response''" ?g "generate_response_node env" END 23 st' w']
    by (simp add: chatbot_graph_fields END_def)
  show ?thesis
    by (simp add: invoke_def chatbot_graph_fields(1) a b run_graph_END chatbot_graph_fields(4)
        split: prod.splits sum.splits)
qed

lemma invoke_retrieve_fail:
  "retrieve_node env st w = (Inl e, w1) \<Longrightarrow>
   invoke (create_classifier_graph env) st w = (Inl e, w1)"
  by (simp add: invoke_classifier)

lemma classify_text_abort:
  "invoke (create_classifier_graph env) (initial_state request) (snd (time_time (clock env) w)) = (Inl e, w2) \<Longrightarrow>
   classify_text env request inc w =
     (Inl (HTTPException 500 (''Classification failed: '' @ exn_str e)), db_rollback w2)"
proof -
  assume a: "invoke (create_classifier_graph env) (initial_state request) (snd (time_time (clock env) w)) = (Inl e, w2)"
  obtain t0 w1 where tt: "time_time (clock env) w = (t0, w1)"
    by (cases "time_time (clock env) w")
  with a have "invoke (create_classifier_graph env) (initial_state request) w1 = (Inl e, w2)"
    by simp
  then have "classify_text_try env request inc w = (Inl e, w2)"
    by (simp add: classify_text_try_def tt)
  then show ?thesis
    by (simp add: classify_text_def)
qed

lemma model_invocations_simps:
  "model_invocations (record_call (EmbedQuery t) w) = model_invocations w"
  "model_invocations (record_call (ClientSearch q k thr) w) = model_invocations w"
  "model_invocations (db_rollback w) = model_invocations w"
  "model_invocations (snd (time_time c w)) = model_invocations w"
  by (simp_all add: model_invocations_def record_call_def db_rollback_def time_time_def)

lemma history_table_simps:
  "history_table (record_call ev w) = history_table w"
  "history_table (db_rollback w) = history_table w"
  "history_table (snd (time_time c w)) = history_table w"
  by (simp_all add: record_call_def db_rollback_def time_time_def)

lemma with_index_fields:
  "embed_query (with_index env sim points) = embed_query env"
  "client_search (with_index env sim points) q k thr = Inr (index_search sim points q k thr)"
  "clock (with_index env sim points) = clock env"
  by (simp_all add: with_index_def)

lemma search_similar_with_index:
  assumes "search_similar (with_index env sim points) t k thr w = (Inr exs, w')"
  shows "\<exists>q. embed_query env t = Inr q \<and> exs = map format_result (index_search sim points q k thr)"
proof (cases "embed_query env t")
  case (Inl e)
  with assms show ?thesis
    by (simp add: search_similar_embed_fail with_index_fields)
next
  case (Inr q)
  with assms show ?thesis
    by (simp add: search_similar_ok [where rs = "index_search sim points q k thr"] with_index_fields)
qed

lemma retrieve_node_examples:
  assumes "retrieve_node env st w = (Inr upd, w')"
  shows "\<exists>w1 w2. search_similar env (state_text st) 5 0.6 w1 =
           (Inr (retrieved_examples (fold ClassifierState upd st)), w2)"
proof -
  obtain t0 w1 where tt: "time_time (clock env) w = (t0, w1)"
    by (cases "time_time (clock env) w")
  obtain r w2 where s: "search_similar env (state_text st) 5 0.6 w1 = (r, w2)"
    by (cases "search_similar env (state_text st) 5 0.6 w1")
  obtain t1 w3 where t2: "time_time (clock env) w2 = (t1, w3)"
    by (cases "time_time (clock env) w2")
  show ?thesis
  proof (cases r)
    case (Inl e)
    with assms tt s show ?thesis by (simp add: retrieve_node_def)
  next
    case (Inr exs)
    with assms tt s t2 have "retrieved_examples (fold ClassifierState upd st) = exs"
      by (auto simp add: retrieve_node_def)
    with s Inr show ?thesis by blast
  qed
qed

lemma index_search_above_threshold:
  "r \<in> set (index_search sim points q k thr) \<Longrightarrow> \<not> sp_score r < thr"
  by (simp add: index_search_def)

lemma ex_score_format_result: "ex_score (format_result r) = sp_score r"
  by (simp add: format_result_def)

lemma search_similar_above_threshold:
  assumes "search_similar (with_index env sim points) t k thr w = (Inr exs, w')"
    and "ex \<in> set exs"
  shows "\<not> ex_score ex < thr"
proof -
  from search_similar_with_index [OF assms(1)] obtain q
    where "exs = map format_result (index_search sim points q k thr)" by blast
  with assms(2) obtain r where "r \<in> set (index_search sim points q k thr)" "ex = format_result r"
    by auto
  then show ?thesis
    by (simp add: ex_score_format_result index_search_above_threshold)
qed

lemma filter_take_prefix: "\<exists>m. filter P (take n xs) = take m (filter P xs)"
proof (induction xs arbitrary: n)
  case Nil
  show ?case by simp
next
  case (Cons x xs)
  show ?case
  proof (cases n)
    case 0
    have "filter P (take 0 (x # xs)) = take 0 (filter P (x # xs))" by simp
    with 0 show ?thesis by blast
  next
    case (Suc j)
    from Cons.IH [of j] obtain m where m: "filter P (take j xs) = take m (filter P xs)" ..
    show ?thesis
    proof (cases "P x")
      case True
      with m Suc have "filter P (take n (x # xs)) = take (Suc m) (filter P (x # xs))" by simp
      then show ?thesis ..
    next
      case False
      with m Suc have "filter P (take n (x # xs)) = take m (filter P (x # xs))" by simp
      then show ?thesis ..
    qed
  qed
qed

lemma index_search_sorted:
  "sorted_wrt (\<lambda>a b. sp_score b \<le> sp_score a) (index_search sim points q k thr)"
proof -
  let ?ys = "map (score_point sim q) points"
  have "sorted (map (\<lambda>r. - sp_score r) (sort_key (\<lambda>r. - sp_score r) ?ys))"
    by (rule sorted_sort_key)
  then have "sorted_wrt (\<lambda>a b. sp_score b \<le> sp_score a) (sort_key (\<lambda>r. - sp_score r) ?ys)"
    by (simp add: sorted_map)
  then have "sorted_wrt (\<lambda>a b. sp_score b \<le> sp_score a) (take k (sort_key (\<lambda>r. - sp_score r) ?ys))"
    by (rule sorted_wrt_take)
  then show ?thesis
    unfolding index_search_def by (rule sorted_wrt_filter)
qed

lemma index_search_stable:
  "\<exists>n. filter (\<lambda>r. sp_score r = c) (index_search sim points q k thr) =
       take n (filter (\<lambda>r. sp_score r = c) (map (score_point sim q) points))"
proof -
  let ?ys = "map (score_point sim q) points"
  let ?S = "sort_key (\<lambda>r. - sp_score r) ?ys"
  have st: "filter (\<lambda>r. sp_score r = c) ?S = filter (\<lambda>r. sp_score r = c) ?ys"
    using sort_key_stable [of "\<lambda>r. - sp_score r" "- c" ?ys] by simp
  obtain m where m: "filter (\<lambda>r. sp_score r = c) (take k ?S) = take m (filter (\<lambda>r. sp_score r = c) ?S)"
    using filter_take_prefix by blast
  have sw: "filter (\<lambda>r. sp_score r = c) (index_search sim points q k thr) =
      filter (\<lambda>r. \<not> sp_score r < thr) (filter (\<lambda>r. sp_score r = c) (take k ?S))"
    unfolding index_search_def by (simp add: conj_commute)
  show ?thesis
  proof (cases "c < thr")
    case True
    then have "filter (\<lambda>r. \<not> sp_score r < thr) (filter (\<lambda>r. sp_score r = c) (take k ?S)) = []"
      by (simp add: filter_empty_conv)
    with sw have "filter (\<lambda>r. sp_score r = c) (index_search sim points q k thr) =
        take 0 (filter (\<lambda>r. sp_score r = c) ?ys)" by simp
    then show ?thesis ..
  next
    case False
    then have "filter (\<lambda>r. \<not> sp_score r < thr) (filter (\<lambda>r. sp_score r = c) (take k ?S)) =
        filter (\<lambda>r. sp_score r = c) (take k ?S)"
      unfolding filter_filter by (auto intro!: filter_cong)
    with sw m st have "filter (\<lambda>r. sp_score r = c) (index_search sim points q k thr) =
        take m (filter (\<lambda>r. sp_score r = c) ?ys)" by simp
    then show ?thesis ..
  qed
qed

lemma examples_sorted_stable:
  assumes "exs = map format_result (index_search sim points q k thr)"
  shows "sorted_wrt (\<lambda>a b. ex_score b \<le> ex_score a) exs \<and>
     (\<forall>c. \<exists>n. filter (\<lambda>ex. ex_score ex = c) exs =
        take n (map format_result (filter (\<lambda>r. sp_score r = c) (map (score_point sim q) points))))"
proof (intro conjI allI)
  show "sorted_wrt (\<lambda>a b. ex_score b \<le> ex_score a) exs"
    using index_search_sorted [of sim points q k thr]
    by (simp add: assms sorted_wrt_map ex_score_format_result)
next
  fix c
  from index_search_stable [of c sim points q k thr] obtain n where
    n: "filter (\<lambda>r. sp_score r = c) (index_search sim points q k thr) =
       take n (filter (\<lambda>r. sp_score r = c) (map (score_point sim q) points))" ..
  have "filter (\<lambda>ex. ex_score ex = c) exs =
      map format_result (filter (\<lambda>r. sp_score r = c) (index_search sim points q k thr))"
    by (simp add: assms filter_map o_def ex_score_format_result)
  also have "\<dots> = take n (map format_result (filter (\<lambda>r. sp_score r = c) (map (score_point sim q) points)))"
    by (simp add: n take_map)
  finally show "\<exists>n. filter (\<lambda>ex. ex_score ex = c) exs =
        take n (map format_result (filter (\<lambda>r. sp_score r = c) (map (score_point sim q) points)))" ..
qed

lemma stub_search:
  "index_search dot stub_points [1, 0] 5 (3 / 5) =
     [score_point dot [1, 0] (stub_points ! 0), score_point dot [1, 0] (stub_points ! 2),
      score_point dot [1, 0] (stub_points ! 3)]"
  by (simp add: index_search_def stub_points_def score_point_def dot_def)

lemma stub_search_similar:
  "search_similar (with_index stub_env dot stub_points) ''Apple'' 5 (3 / 5) stub_world =
     (Inr stub_hits,
      record_call (ClientSearch [1, 0] 5 (3 / 5)) (record_call (EmbedQuery ''Apple'') stub_world))"
  by (simp add: search_similar_def with_index_def stub_env_def stub_search)
     (simp add: stub_hits_def stub_example_def format_result_def score_point_def
        stub_points_def stub_payload_def dot_def)

lemma digit_char_0: "digit_char 0 = CHR ''0''"
  by code_simp

lemma format_examples_empty: "format_examples fmt [] = ''No similar examples found.''"
  by (simp add: format_examples_def)

lemma pipeline_run:
  assumes "embed_query env (state_text st) = Inr q"
    and "client_search env q 5 0.6 = Inr rs"
    and "ChatOpenAI env ''gpt-4.1'' 0 = Inr chat"
  shows "\<exists>st' w'. invoke (create_classifier_graph env) st w = (Inr st', w') \<and>
            retrieved_examples st' = map format_result rs \<and>
            (\<exists>l c x r. predicted_label st' = Some l \<and> predicted_category st' = Some c \<and>
               confidence st' = Some x \<and> reasoning st' = Some r) \<and>
            calls w' = calls w @
              [EmbedQuery (state_text st), ClientSearch q 5 0.6,
               ModelInvoke ''gpt-4.1'' 0
                 [SystemMessage (system_prompt
                    (format_examples (format_2f env) (map format_result rs))),
                  HumanMessage (''Classify this article:'' @ nl @ nl @ take 2000 (state_text st))]]"
proof -
  let ?u1 = "[Write_retrieved_examples (map format_result rs),
              Write_retrieval_time (clock env (Suc (ticks w)) - clock env (ticks w)),
              Write_messages [SystemMessage (''Retrieved '' @ str_nat (length rs) @
                 '' similar examples from training data'')]]"
  let ?w1 = "(record_call (ClientSearch q 5 0.6)
               (record_call (EmbedQuery (state_text st)) (snd (time_time (clock env) w))))\<lparr>ticks := ticks w + 2\<rparr>"
  let ?st1 = "fold ClassifierState ?u1 st"
  have r: "retrieve_node env st w = (Inr ?u1, ?w1)"
    using retrieve_node_ok [OF assms(1) assms(2), of w] by simp
  obtain l c x rs' where t: "classify_try (with_structured_output ClassificationResult chat)
      (classify_messages (format_2f env) ?st1) = Inr (l, c, x, rs')"
    using classify_try_total by blast
  note n = classify_node_run [OF assms(3) t, of ?w1]
  have i: "invoke (create_classifier_graph env) st w =
      (Inr (fold ClassifierState
             [Write_predicted_label l, Write_predicted_category c, Write_confidence x,
              Write_reasoning rs',
              Write_classification_time (clock env (Suc (ticks ?w1)) - clock env (ticks ?w1)),
              Write_messages [HumanMessage (''Classified as '' @ c @ '' with '' @
                               format_2f env x @ '' confidence'')]] ?st1),
       ?w1\<lparr>ticks := ticks ?w1 + 2,
         calls := calls ?w1 @ [ModelInvoke ''gpt-4.1'' 0 (classify_messages (format_2f env) ?st1)]\<rparr>)"
    unfolding invoke_classifier r using n by simp
  show ?thesis
  proof (intro conjI exI)
    show "invoke (create_classifier_graph env) st w =
      (Inr (fold ClassifierState
             [Write_predicted_label l, Write_predicted_category c, Write_confidence x,
              Write_reasoning rs',
              Write_classification_time (clock env (Suc (ticks ?w1)) - clock env (ticks ?w1)),
              Write_messages [HumanMessage (''Classified as '' @ c @ '' with '' @
                               format_2f env x @ '' confidence'')]] ?st1),
       ?w1\<lparr>ticks := ticks ?w1 + 2,
         calls := calls ?w1 @ [ModelInvoke ''gpt-4.1'' 0 (classify_messages (format_2f env) ?st1)]\<rparr>)"
      by (rule i)
  qed (simp_all add: classify_messages_def classify_user_message_def
        add_messages_def record_call_def time_time_def)
qed

lemma retrieve_node_writes:
  assumes "retrieve_node env st w = (Inr upd, w')"
  shows "\<exists>exs t m. upd = [Write_retrieved_examples exs, Write_retrieval_time t,
                            Write_messages [SystemMessage m]]"
proof (cases "embed_query env (state_text st)")
  case (Inl e)
  with assms show ?thesis by (simp add: retrieve_node_embed_fail)
next
  case (Inr q)
  show ?thesis
  proof (cases "client_search env q 5 0.6")
    case (Inl e)
    from assms show ?thesis by (simp add: retrieve_node_search_fail [OF Inr Inl])
  next
    case r: (Inr rs)
    from assms show ?thesis by (auto simp add: retrieve_node_ok [OF Inr r])
  qed
qed

lemma classify_node_writes:
  assumes "classify_node env st w = (Inr upd, w')"
  shows "\<exists>l c x r t m. upd = [Write_predicted_label l, Write_predicted_category c,
            Write_confidence x, Write_reasoning r, Write_classification_time t,
            Write_messages [HumanMessage m]]"
proof (cases "ChatOpenAI env ''gpt-4.1'' 0")
  case (Inl e)
  with assms show ?thesis by (simp add: classify_node_construct_fail)
next
  case (Inr chat)
  obtain l c x r where t: "classify_try (with_structured_output ClassificationResult chat)
      (classify_messages (format_2f env) st) = Inr (l, c, x, r)"
    using classify_try_total by blast
  from assms show ?thesis by (auto simp add: classify_node_run [OF Inr t])
qed

lemma invoke_classifier_frame:
  assumes "invoke (create_classifier_graph env) st w = (Inr st', w')"
  shows "state_text st' = state_text st \<and>
         (\<exists>m1 m2. messages st' = messages st @ [SystemMessage m1, HumanMessage m2])"
proof -
  obtain r1 w1 where r: "retrieve_node env st w = (r1, w1)"
    by (cases "retrieve_node env st w")
  show ?thesis
  proof (cases r1)
    case (Inl e)
    with assms r show ?thesis by (simp add: invoke_classifier)
  next
    case u1: (Inr u1)
    obtain r2 w2 where c: "classify_node env (fold ClassifierState u1 st) w1 = (r2, w2)"
      by (cases "classify_node env (fold ClassifierState u1 st) w1")
    show ?thesis
    proof (cases r2)
      case (Inl e)
      with assms r u1 c show ?thesis by (simp add: invoke_classifier)
    next
      case u2: (Inr u2)
      from assms r u1 c u2 have s: "st' = fold ClassifierState u2 (fold ClassifierState u1 st)"
        by (simp add: invoke_classifier)
      from retrieve_node_writes [of env st w u1 w1] r u1 obtain exs t m where
        a: "u1 = [Write_retrieved_examples exs, Write_retrieval_time t, Write_messages [SystemMessage m]]"
        by auto
      from classify_node_writes [of env "fold ClassifierState u1 st" w1 u2 w2] c u2
      obtain l ca x rs t' m' where
        b: "u2 = [Write_predicted_label l, Write_predicted_category ca,
            Write_confidence x, Write_reasoning rs, Write_classification_time t',
            Write_messages [HumanMessage m']]"
        by auto
      show ?thesis
        by (simp add: s a b add_messages_def)
    qed
  qed
qed

lemma last_10_append: "length recent = 10 \<Longrightarrow> last_10 (older @ recent) = recent"
  by (simp add: last_10_def)

lemma retrieve_context_node_run:
  "retrieve_context_node st w =
     (Inr [Write_formatted_history
             (if conversation_history st = [] then ''This is the start of a new conversation.''
              else join nl (map format_line (last_10 (conversation_history st)))),
           Write_chat_messages
             [SystemMessage (''Retrieved conversation context ('' @
                str_nat (length (conversation_history st)) @ '' messages)'')]], w)"
  by (simp add: retrieve_context_node_def Let_def)

lemma last_10_short: "length xs \<le> 10 \<Longrightarrow> last_10 xs = xs"
  by (simp add: last_10_def)

section \<open>The claims\<close>

subsection \<open>C1\<close>



subsection \<open>C2\<close>

text \<open>
  Claim C2. When the embedding provider or the index raises during retrieval, the run
  ends with that exception, the language model is not called, the handler answers with an
  error (status 500) and the history table is left as it was.
\<close>

theorem retrieval_failure_aborts_run:
  assumes "embed_query env (request_message request) = Inl e \<or>
           (embed_query env (request_message request) = Inr q \<and> client_search env q 5 0.6 = Inl e)"
  shows "fst (invoke (create_classifier_graph env) (initial_state request) w) = Inl e \<and>
         model_invocations (snd (invoke (create_classifier_graph env) (initial_state request) w)) =
           model_invocations w \<and>
         fst (classify_text env request include_examples w) =
           Inl (HTTPException 500 (''Classification failed: '' @ exn_str e)) \<and>
         model_invocations (snd (classify_text env request include_examples w)) = model_invocations w \<and>
         history_table (snd (classify_text env request include_examples w)) = history_table w \<and>
         pending (snd (classify_text env request include_examples w)) = []"
proof -
  have t: "state_text (initial_state request) = request_message request"
    by (simp add: initial_state_def)
  from assms have "\<exists>w1. (\<forall>w0. retrieve_node env (initial_state request) w0 = (Inl e, w1 w0) \<and>
      model_invocations (w1 w0) = model_invocations w0 \<and> history_table (w1 w0) = history_table w0)"
  proof
    assume a: "embed_query env (request_message request) = Inl e"
    show ?thesis
      by (rule exI [of _ "\<lambda>w0. record_call (EmbedQuery (request_message request)) (snd (time_time (clock env) w0))"])
         (simp add: retrieve_node_embed_fail a t model_invocations_simps history_table_simps)
  next
    assume a: "embed_query env (request_message request) = Inr q \<and> client_search env q 5 0.6 = Inl e"
    show ?thesis
      by (rule exI [of _ "\<lambda>w0. record_call (ClientSearch q 5 0.6)
               (record_call (EmbedQuery (request_message request)) (snd (time_time (clock env) w0)))"])
         (use a in \<open>simp add: retrieve_node_search_fail t model_invocations_simps history_table_simps\<close>)
  qed
  then obtain w1 where r: "\<And>w0. retrieve_node env (initial_state request) w0 = (Inl e, w1 w0)"
    and m: "\<And>w0. model_invocations (w1 w0) = model_invocations w0"
    and h: "\<And>w0. history_table (w1 w0) = history_table w0"
    by blast
  have i: "invoke (create_classifier_graph env) (initial_state request) w0 = (Inl e, w1 w0)" for w0
    by (rule invoke_retrieve_fail [OF r])
  have c: "classify_text env request include_examples w =
     (Inl (HTTPException 500 (''Classification failed: '' @ exn_str e)),
      db_rollback (w1 (snd (time_time (clock env) w))))"
    by (rule classify_text_abort [OF i])
  show ?thesis
    by (simp add: i c m h model_invocations_simps history_table_simps) (simp add: db_rollback_def)
qed

theorem retrieval_failure_aborts_run_witness:
  "fst (classify_text embedding_down_env stub_request False stub_world) =
     Inl (HTTPException 500 ''Classification failed: connection refused'') \<and>
   model_invocations (snd (classify_text embedding_down_env stub_request False stub_world)) = 0 \<and>
   history_table (snd (classify_text embedding_down_env stub_request False stub_world)) = [] \<and>
   fst (classify_text index_down_env stub_request False stub_world) =
     Inl (HTTPException 500 ''Classification failed: index unavailable'') \<and>
   model_invocations (snd (classify_text index_down_env stub_request False stub_world)) = 0 \<and>
   history_table (snd (classify_text index_down_env stub_request False stub_world)) = []"
  using retrieval_failure_aborts_run
    [where env = embedding_down_env and request = stub_request
       and e = "ExternalError ''connection refused''" and w = stub_world
       and include_examples = False]
    retrieval_failure_aborts_run
    [where env = index_down_env and request = stub_request and q = "[1, 0]"
       and e = "ExternalError ''index unavailable''" and w = stub_world
       and include_examples = False]
  by (simp add: embedding_down_env_def index_down_env_def stub_env_def stub_world_def
      stub_request_def model_invocations_def)

subsection \<open>C3\<close>

text \<open>
  Claim C3. A run of either pipeline is the retrieval node, then the merge of what it
  returned into the state, then the generation node on that state: the generation node
  starts from a state that already holds the retrieved examples (the formatted history in
  the chat service). In a run of the classification pipeline the collaborators are called
  in the order embedding, search, language model, and the prompt of the language model is
  built from the examples the search returned.
\<close>

theorem retrieve_then_generate:
  "invoke (create_classifier_graph env) st w =
     (case retrieve_node env st w of
        (Inl e, w1) \<Rightarrow> (Inl e, w1)
      | (Inr u1, w1) \<Rightarrow>
         (case classify_node env (fold ClassifierState u1 st) w1 of
            (Inl e, w2) \<Rightarrow> (Inl e, w2)
          | (Inr u2, w2) \<Rightarrow> (Inr (fold ClassifierState u2 (fold ClassifierState u1 st)), w2))) \<and>
   retrieved_examples
     (fold ClassifierState
        [Write_retrieved_examples exs, Write_retrieval_time t, Write_messages ms] st) = exs \<and>
   (embed_query env (state_text st) = Inr q \<and> client_search env q 5 0.6 = Inr rs \<and>
    ChatOpenAI env ''gpt-4.1'' 0 = Inr chat \<longrightarrow>
      calls (snd (invoke (create_classifier_graph env) st w)) =
        calls w @
        [EmbedQuery (state_text st), ClientSearch q 5 0.6,
         ModelInvoke ''gpt-4.1'' 0
           [SystemMessage (system_prompt (format_examples (format_2f env) (map format_result rs))),
            HumanMessage (''Classify this article:'' @ nl @ nl @ take 2000 (state_text st))]]) \<and>
   invoke (chatbot_graph cenv) cst w =
     (case retrieve_context_node cst w of
        (Inl e, w1) \<Rightarrow> (Inl e, w1)
      | (Inr u1, w1) \<Rightarrow>
         (case generate_response_node cenv (fold ChatbotState u1 cst) w1 of
            (Inl e, w2) \<Rightarrow> (Inl e, w2)
          | (Inr u2, w2) \<Rightarrow> (Inr (fold ChatbotState u2 (fold ChatbotState u1 cst)), w2))) \<and>
   formatted_history
     (fold ChatbotState [Write_formatted_history h, Write_chat_messages ms'] cst) = h"
proof (intro conjI impI)
  assume a: "embed_query env (state_text st) = Inr q \<and> client_search env q 5 0.6 = Inr rs \<and>
    ChatOpenAI env ''gpt-4.1'' 0 = Inr chat"
  then have h: "embed_query env (state_text st) = Inr q" "client_search env q 5 0.6 = Inr rs"
    "ChatOpenAI env ''gpt-4.1'' 0 = Inr chat" by simp_all
  from pipeline_run [OF h, of w]
  show "calls (snd (invoke (create_classifier_graph env) st w)) =
        calls w @
        [EmbedQuery (state_text st), ClientSearch q 5 0.6,
         ModelInvoke ''gpt-4.1'' 0
           [SystemMessage (system_prompt (format_examples (format_2f env) (map format_result rs))),
            HumanMessage (''Classify this article:'' @ nl @ nl @ take 2000 (state_text st))]]"
    by auto
qed (simp_all add: invoke_classifier invoke_chatbot)

theorem retrieve_then_generate_witness:
  "calls (snd (invoke (create_classifier_graph stub_env) (initial_state stub_request) stub_world)) =
     [EmbedQuery ''Apple announces new iPhone'', ClientSearch [1, 0] 5 (3 / 5),
      ModelInvoke ''gpt-4.1'' 0
        [SystemMessage (system_prompt ''No similar examples found.''),
         HumanMessage (''Classify this article:'' @ nl @ nl @ ''Apple announces new iPhone'')]]"
proof -
  have c: "calls stub_world = []"
    "state_text (initial_state stub_request) = ''Apple announces new iPhone''"
    "embed_query stub_env ''Apple announces new iPhone'' = Inr [1, 0]"
    "client_search stub_env [1, 0] 5 (3 / 5) = Inr []"
    "ChatOpenAI stub_env ''gpt-4.1'' 0 = Inr (\<lambda>msgs. Inr stub_result)"
    by (simp_all add: stub_env_def stub_world_def initial_state_def stub_request_def)
  from retrieve_then_generate
    [where env = stub_env and st = "initial_state stub_request" and w = stub_world
       and q = "[1, 0]" and rs = "[]" and chat = "\<lambda>msgs. Inr stub_result",
     THEN conjunct2, THEN conjunct2, THEN conjunct1]
  show ?thesis by (simp add: c format_examples_empty)
qed

subsection \<open>C4\<close>

text \<open>
  Claim C4. With the index of the spec behind \<open>client.search\<close>, no example that
  \<open>search_similar\<close> returns has a score strictly below the threshold it was called with, for
  every threshold and every content of the index; \<open>retrieve_node\<close> calls it with 0.6 and
  stores what it returns.
\<close>

theorem retrieval_respects_threshold:
  "(search_similar (with_index env sim points) query_text limit score_threshold w = (Inr exs, w') \<longrightarrow>
      (\<forall>ex \<in> set exs. \<not> ex_score ex < score_threshold)) \<and>
   (retrieve_node (with_index env sim points) st w = (Inr upd, w'') \<longrightarrow>
      (\<forall>ex \<in> set (retrieved_examples (fold ClassifierState upd st)). \<not> ex_score ex < 0.6))"
proof (intro conjI impI ballI)
  fix ex
  assume "search_similar (with_index env sim points) query_text limit score_threshold w = (Inr exs, w')"
    and "ex \<in> set exs"
  then show "\<not> ex_score ex < score_threshold"
    by (rule search_similar_above_threshold)
next
  fix ex
  assume r: "retrieve_node (with_index env sim points) st w = (Inr upd, w'')"
    and m: "ex \<in> set (retrieved_examples (fold ClassifierState upd st))"
  from retrieve_node_examples [OF r] obtain w1 w2 where
    "search_similar (with_index env sim points) (state_text st) 5 0.6 w1 =
       (Inr (retrieved_examples (fold ClassifierState upd st)), w2)" by blast
  from search_similar_above_threshold [OF this m] show "\<not> ex_score ex < 0.6" .
qed

theorem retrieval_respects_threshold_witness:
  "fst (search_similar (with_index stub_env dot stub_points) ''Apple'' 5 (3 / 5) stub_world) =
     Inr stub_hits \<and>
   map ex_score stub_hits = [1, 1, 4 / 5] \<and>
   list_all (\<lambda>ex. \<not> ex_score ex < 3 / 5) stub_hits"
  using retrieval_respects_threshold
    [where env = stub_env and sim = dot and points = stub_points and query_text = "''Apple''"
       and limit = 5 and score_threshold = "3 / 5" and w = stub_world and exs = stub_hits
       and w' = "record_call (ClientSearch [1, 0] 5 (3 / 5)) (record_call (EmbedQuery ''Apple'') stub_world)"]
  by (simp add: stub_search_similar list_all_iff) (simp add: stub_hits_def stub_example_def)

subsection \<open>C5\<close>

text \<open>
  Claim C5. With the index of the spec behind \<open>client.search\<close>, the examples returned
  are in descending order of score, and the examples of any one score are the first of the
  index's points of that score, in insertion order.
\<close>

theorem retrieval_sorted_descending_stable:
  "(search_similar (with_index env sim points) query_text limit score_threshold w = (Inr exs, w') \<and>
    embed_query env query_text = Inr q \<longrightarrow>
      sorted_wrt (\<lambda>a b. ex_score b \<le> ex_score a) exs \<and>
      (\<forall>c. \<exists>n. filter (\<lambda>ex. ex_score ex = c) exs =
         take n (map format_result
                   (filter (\<lambda>r. sp_score r = c) (map (score_point sim q) points))))) \<and>
   (retrieve_node (with_index env sim points) st w = (Inr upd, w'') \<and>
    embed_query env (state_text st) = Inr q' \<longrightarrow>
      sorted_wrt (\<lambda>a b. ex_score b \<le> ex_score a) (retrieved_examples (fold ClassifierState upd st)) \<and>
      (\<forall>c. \<exists>n. filter (\<lambda>ex. ex_score ex = c) (retrieved_examples (fold ClassifierState upd st)) =
         take n (map format_result
                   (filter (\<lambda>r. sp_score r = c) (map (score_point sim q') points)))))"
proof (intro conjI impI)
  assume a: "search_similar (with_index env sim points) query_text limit score_threshold w = (Inr exs, w') \<and>
    embed_query env query_text = Inr q"
  with search_similar_with_index [of env sim points query_text limit score_threshold w exs w']
  have e: "exs = map format_result (index_search sim points q limit score_threshold)" by auto
  from examples_sorted_stable [OF e]
  show "sorted_wrt (\<lambda>a b. ex_score b \<le> ex_score a) exs"
    and "\<forall>c. \<exists>n. filter (\<lambda>ex. ex_score ex = c) exs =
         take n (map format_result
                   (filter (\<lambda>r. sp_score r = c) (map (score_point sim q) points)))"
    by blast+
next
  assume a: "retrieve_node (with_index env sim points) st w = (Inr upd, w'') \<and>
    embed_query env (state_text st) = Inr q'"
  then have r: "retrieve_node (with_index env sim points) st w = (Inr upd, w'')" by simp
  from retrieve_node_examples [OF r] obtain w1 w2 where
    s: "search_similar (with_index env sim points) (state_text st) 5 0.6 w1 =
       (Inr (retrieved_examples (fold ClassifierState upd st)), w2)" by blast
  with a search_similar_with_index [OF s]
  have e: "retrieved_examples (fold ClassifierState upd st) =
      map format_result (index_search sim points q' 5 0.6)" by auto
  from examples_sorted_stable [OF e]
  show "sorted_wrt (\<lambda>a b. ex_score b \<le> ex_score a) (retrieved_examples (fold ClassifierState upd st))"
    and "\<forall>c. \<exists>n. filter (\<lambda>ex. ex_score ex = c) (retrieved_examples (fold ClassifierState upd st)) =
         take n (map format_result
                   (filter (\<lambda>r. sp_score r = c) (map (score_point sim q') points)))"
    by blast+
qed

theorem retrieval_sorted_descending_stable_witness:
  "fst (search_similar (with_index stub_env dot stub_points) ''Apple'' 5 (3 / 5) stub_world) =
     Inr stub_hits \<and>
   sorted_wrt (\<lambda>a b. ex_score b \<le> ex_score a) stub_hits \<and>
   filter (\<lambda>ex. ex_score ex = 1) stub_hits = [stub_example ''first'' 1, stub_example ''third'' 1]"
  using retrieval_sorted_descending_stable
    [where env = stub_env and sim = dot and points = stub_points and query_text = "''Apple''"
       and limit = 5 and score_threshold = "3 / 5" and w = stub_world and exs = stub_hits
       and q = "[1, 0]"
       and w' = "record_call (ClientSearch [1, 0] 5 (3 / 5)) (record_call (EmbedQuery ''Apple'') stub_world)"]
  by (simp add: stub_search_similar) (simp add: stub_hits_def stub_example_def stub_env_def)

subsection \<open>C6\<close>




subsection \<open>C7\<close>

text \<open>
  Claim C7 as stated fails: both stages write the key \<open>messages\<close>, so the retrieval
  node writes more than the retrieved examples and its timing.
\<close>

theorem messages_written_by_both_stages:
  "written_keys (retrieve_node stub_env (initial_state stub_request) stub_world) =
     [''retrieved_examples'', ''retrieval_time'', ''messages''] \<and>
   written_keys (classify_node stub_env (initial_state stub_request) stub_world) =
     [''predicted_label'', ''predicted_category'', ''confidence'', ''reasoning'',
      ''classification_time'', ''messages''] \<and>
   \<not> set (written_keys (retrieve_node stub_env (initial_state stub_request) stub_world))
       \<subseteq> {''retrieved_examples'', ''retrieval_time''}"
proof -
  have h1: "embed_query stub_env (state_text (initial_state stub_request)) = Inr [1, 0]"
    by (simp add: stub_env_def)
  have h2: "client_search stub_env [1, 0] 5 0.6 = Inr []"
    by (simp add: stub_env_def)
  have h3: "ChatOpenAI stub_env ''gpt-4.1'' 0 = Inr (\<lambda>msgs. Inr stub_result)"
    by (simp add: stub_env_def)
  obtain l c x r where t: "classify_try (with_structured_output ClassificationResult (\<lambda>msgs. Inr stub_result))
      (classify_messages (format_2f stub_env) (initial_state stub_request)) = Inr (l, c, x, r)"
    using classify_try_total by blast
  show ?thesis
    by (simp add: written_keys_def retrieve_node_ok [OF h1 h2] classify_node_run [OF h3 t])
qed

text \<open>
  Claim C7, as amended. The retrieval node writes the keys \<open>retrieved_examples\<close>,
  \<open>retrieval_time\<close> and \<open>messages\<close>; the classification node writes \<open>predicted_label\<close>,
  \<open>predicted_category\<close>, \<open>confidence\<close>, \<open>reasoning\<close>, \<open>classification_time\<close> and
  \<open>messages\<close>. The two sets share \<open>messages\<close> only, to which each stage appends one
  message; no stage writes \<open>text\<close>, and a run leaves it as it was.
\<close>

theorem stages_write_disjoint_fields_but_messages:
  "(retrieve_node env st w = (Inr u1, w1) \<longrightarrow>
      written_keys (retrieve_node env st w) = [''retrieved_examples'', ''retrieval_time'', ''messages'']) \<and>
   (classify_node env st w = (Inr u2, w2) \<longrightarrow>
      written_keys (classify_node env st w) =
        [''predicted_label'', ''predicted_category'', ''confidence'', ''reasoning'',
         ''classification_time'', ''messages'']) \<and>
   set [''retrieved_examples'', ''retrieval_time'', ''messages''] \<inter>
     set [''predicted_label'', ''predicted_category'', ''confidence'', ''reasoning'',
          ''classification_time'', ''messages''] = {''messages''} \<and>
   (invoke (create_classifier_graph env) st w = (Inr st', w') \<longrightarrow>
      state_text st' = state_text st \<and>
      (\<exists>m1 m2. messages st' = messages st @ [SystemMessage m1, HumanMessage m2]))"
proof (intro conjI impI)
  assume a: "retrieve_node env st w = (Inr u1, w1)"
  from retrieve_node_writes [OF a] show
    "written_keys (retrieve_node env st w) = [''retrieved_examples'', ''retrieval_time'', ''messages'']"
    by (auto simp add: written_keys_def a)
next
  assume a: "classify_node env st w = (Inr u2, w2)"
  from classify_node_writes [OF a] show "written_keys (classify_node env st w) =
        [''predicted_label'', ''predicted_category'', ''confidence'', ''reasoning'',
         ''classification_time'', ''messages'']"
    by (auto simp add: written_keys_def a)
next
  show "set [''retrieved_examples'', ''retrieval_time'', ''messages''] \<inter>
     set [''predicted_label'', ''predicted_category'', ''confidence'', ''reasoning'',
          ''classification_time'', ''messages''] = {''messages''}"
    by simp
next
  assume a: "invoke (create_classifier_graph env) st w = (Inr st', w')"
  from invoke_classifier_frame [OF a] show "state_text st' = state_text st"
    and "\<exists>m1 m2. messages st' = messages st @ [SystemMessage m1, HumanMessage m2]"
    by blast+
qed

theorem stages_write_disjoint_fields_but_messages_witness:
  "written_keys (retrieve_node stub_env (initial_state stub_request) stub_world) =
     [''retrieved_examples'', ''retrieval_time'', ''messages''] \<and>
   written_keys (classify_node stub_env (initial_state stub_request) stub_world) =
     [''predicted_label'', ''predicted_category'', ''confidence'', ''reasoning'',
      ''classification_time'', ''messages''] \<and>
   (\<exists>st' w'. invoke (create_classifier_graph stub_env) (initial_state stub_request) stub_world =
        (Inr st', w') \<and>
      state_text st' = ''Apple announces new iPhone'' \<and>
      (\<exists>m1 m2. messages st' = [SystemMessage m1, HumanMessage m2]))"
proof -
  have h1: "embed_query stub_env (state_text (initial_state stub_request)) = Inr [1, 0]"
    by (simp add: stub_env_def)
  have h2: "client_search stub_env [1, 0] 5 0.6 = Inr []"
    by (simp add: stub_env_def)
  have h3: "ChatOpenAI stub_env ''gpt-4.1'' 0 = Inr (\<lambda>msgs. Inr stub_result)"
    by (simp add: stub_env_def)
  obtain l c x r where t: "classify_try (with_structured_output ClassificationResult (\<lambda>msgs. Inr stub_result))
      (classify_messages (format_2f stub_env) (initial_state stub_request)) = Inr (l, c, x, r)"
    using classify_try_total by blast
  obtain u1 w1 where r: "retrieve_node stub_env (initial_state stub_request) stub_world = (Inr u1, w1)"
    using retrieve_node_ok [OF h1 h2, of stub_world] by blast
  obtain u2 w2 where c: "classify_node stub_env (initial_state stub_request) stub_world = (Inr u2, w2)"
    using classify_node_run [OF h3 t, of stub_world] by blast
  obtain st' w' where i: "invoke (create_classifier_graph stub_env) (initial_state stub_request) stub_world =
        (Inr st', w')"
    using pipeline_run [OF h1 h2 h3, of stub_world] by blast
  have s: "state_text (initial_state stub_request) = ''Apple announces new iPhone''"
    "messages (initial_state stub_request) = []"
    by (simp_all add: initial_state_def stub_request_def)
  from stages_write_disjoint_fields_but_messages
    [where env = stub_env and st = "initial_state stub_request" and w = stub_world
       and ?u1.0 = u1 and ?w1.0 = w1 and ?u2.0 = u2 and ?w2.0 = w2 and st' = st' and w' = w']
  show ?thesis
    using r c i s by simp
qed

subsection \<open>C8\<close>

text \<open>
  Claim C8. The prompt sent to the language model by the classification node ends with
  the input text cut to at most 2000 characters; a text of at most 2000 characters is sent
  whole.
\<close>

theorem prompt_carries_truncated_text:
  "ChatOpenAI env ''gpt-4.1'' 0 = Inr chat \<Longrightarrow>
     calls (snd (classify_node env state w)) =
       calls w @
       [ModelInvoke ''gpt-4.1'' 0
          [SystemMessage (system_prompt (format_examples (format_2f env) (retrieved_examples state))),
           HumanMessage (''Classify this article:'' @ nl @ nl @ take 2000 (state_text state))]] \<and>
     length (take 2000 (state_text state)) \<le> 2000 \<and>
     (length (state_text state) \<le> 2000 \<longrightarrow> take 2000 (state_text state) = state_text state)"
proof -
  assume c: "ChatOpenAI env ''gpt-4.1'' 0 = Inr chat"
  obtain l ca x r where t: "classify_try (with_structured_output ClassificationResult chat)
      (classify_messages (format_2f env) state) = Inr (l, ca, x, r)"
    using classify_try_total by blast
  show ?thesis
    by (simp add: classify_node_run [OF c t] classify_messages_def classify_user_message_def)
qed

theorem prompt_carries_truncated_text_witness:
  "calls (snd (classify_node stub_env (initial_state stub_request) stub_world)) =
     [ModelInvoke ''gpt-4.1'' 0
        [SystemMessage (system_prompt ''No similar examples found.''),
         HumanMessage (''Classify this article:'' @ nl @ nl @ ''Apple announces new iPhone'')]] \<and>
   length (take 2000 ''Apple announces new iPhone'') \<le> 2000"
  using prompt_carries_truncated_text
    [where env = stub_env and chat = "\<lambda>msgs. Inr stub_result"
       and state = "initial_state stub_request" and w = stub_world]
  by (simp add: stub_env_def stub_world_def initial_state_def stub_request_def format_examples_def)

subsection \<open>C9\<close>

text \<open>
  Claim C9. A request whose message is empty or longer than 10000 characters is answered
  with status 422 and the world is left as it was: no collaborator is called and nothing
  is written to the history table.
\<close>

theorem invalid_request_rejected_before_pipeline:
  "length body < 1 \<or> 10000 < length body \<Longrightarrow>
   \<exists>detail. post_classify env body include_examples w = (Inl (HTTPException 422 detail), w)"
  by (auto simp add: post_classify_def ClassifyRequest_def)

theorem invalid_request_rejected_before_pipeline_witness:
  "(\<exists>detail. post_classify stub_env '''' False stub_world =
      (Inl (HTTPException 422 detail), stub_world)) \<and>
   (\<exists>detail. post_classify stub_env (replicate 10001 CHR ''a'') True stub_world =
      (Inl (HTTPException 422 detail), stub_world))"
  using invalid_request_rejected_before_pipeline [of "''''" stub_env False stub_world]
    invalid_request_rejected_before_pipeline [of "replicate 10001 CHR ''a''" stub_env True stub_world]
  by simp

subsection \<open>C10\<close>

text \<open>
  Claim C10. The context node of the chat service formats the last 10 messages of the
  history (the whole history when it has fewer), and the fixed marker for an empty
  history; messages before the last 10 do not change the formatted history.
\<close>

theorem context_is_last_ten_messages:
  "fst (retrieve_context_node st w) =
      Inr [Write_formatted_history
             (if conversation_history st = [] then ''This is the start of a new conversation.''
              else join nl (map format_line
                     (drop (length (conversation_history st) - 10) (conversation_history st)))),
           Write_chat_messages
             [SystemMessage (''Retrieved conversation context ('' @
                str_nat (length (conversation_history st)) @ '' messages)'')]] \<and>
   length (drop (length (conversation_history st) - 10) (conversation_history st)) =
     min 10 (length (conversation_history st)) \<and>
   (length recent = 10 \<longrightarrow>
      (\<exists>f m1 m2.
         fst (retrieve_context_node (st\<lparr>conversation_history := older @ recent\<rparr>) w) =
           Inr [Write_formatted_history f, Write_chat_messages m1] \<and>
         fst (retrieve_context_node (st\<lparr>conversation_history := recent\<rparr>) w) =
           Inr [Write_formatted_history f, Write_chat_messages m2]))"
proof (intro conjI impI)
  show "fst (retrieve_context_node st w) =
      Inr [Write_formatted_history
             (if conversation_history st = [] then ''This is the start of a new conversation.''
              else join nl (map format_line
                     (drop (length (conversation_history st) - 10) (conversation_history st)))),
           Write_chat_messages
             [SystemMessage (''Retrieved conversation context ('' @
                str_nat (length (conversation_history st)) @ '' messages)'')]]"
    by (simp add: retrieve_context_node_run last_10_def)
next
  show "length (drop (length (conversation_history st) - 10) (conversation_history st)) =
     min 10 (length (conversation_history st))"
    by simp
next
  assume a: "length recent = 10"
  then have n: "recent \<noteq> []" by auto
  from a have l: "last_10 (older @ recent) = recent" "last_10 recent = recent"
    by (simp_all add: last_10_append last_10_short)
  show "\<exists>f m1 m2.
         fst (retrieve_context_node (st\<lparr>conversation_history := older @ recent\<rparr>) w) =
           Inr [Write_formatted_history f, Write_chat_messages m1] \<and>
         fst (retrieve_context_node (st\<lparr>conversation_history := recent\<rparr>) w) =
           Inr [Write_formatted_history f, Write_chat_messages m2]"
    using n by (simp add: retrieve_context_node_run l)
qed

theorem context_is_last_ten_messages_witness:
  "fst (retrieve_context_node (stub_chat_state []) stub_world) =
     Inr [Write_formatted_history ''This is the start of a new conversation.'',
          Write_chat_messages [SystemMessage ''Retrieved conversation context (0 messages)'']] \<and>
   fst (retrieve_context_node
          (stub_chat_state [stub_message ''user'' ''Hello!'', stub_message ''assistant'' ''Hi!''])
          stub_world) =
     Inr [Write_formatted_history (''User: Hello!'' @ nl @ ''Assistant: Hi!''),
          Write_chat_messages [SystemMessage ''Retrieved conversation context (2 messages)'']] \<and>
   (\<exists>f m1 m2.
      fst (retrieve_context_node
             (stub_chat_state (stub_message ''user'' ''old'' # replicate 10 (stub_message ''user'' ''new'')))
             stub_world) =
        Inr [Write_formatted_history f, Write_chat_messages m1] \<and>
      fst (retrieve_context_node
             (stub_chat_state (replicate 10 (stub_message ''user'' ''new''))) stub_world) =
        Inr [Write_formatted_history f, Write_chat_messages m2])"
proof -
  have d: "digit_char (Suc (Suc 0)) = CHR ''2''" by code_simp
  have f: "format_line (stub_message ''user'' ''Hello!'') = ''User: Hello!''"
    "format_line (stub_message ''assistant'' ''Hi!'') = ''Assistant: Hi!''"
    by code_simp+
  have a: "fst (retrieve_context_node (stub_chat_state []) stub_world) =
     Inr [Write_formatted_history ''This is the start of a new conversation.'',
          Write_chat_messages [SystemMessage ''Retrieved conversation context (0 messages)'']]"
    using context_is_last_ten_messages [of "stub_chat_state []" stub_world "[]" "[]", THEN conjunct1]
    by (simp add: stub_chat_state_def digit_char_0)
  note t = context_is_last_ten_messages
    [of "stub_chat_state [stub_message ''user'' ''Hello!'', stub_message ''assistant'' ''Hi!'']"
        stub_world "replicate 10 (stub_message ''user'' ''new'')" "[stub_message ''user'' ''old'']"]
  have b: "fst (retrieve_context_node
          (stub_chat_state [stub_message ''user'' ''Hello!'', stub_message ''assistant'' ''Hi!''])
          stub_world) =
     Inr [Write_formatted_history (''User: Hello!'' @ nl @ ''Assistant: Hi!''),
          Write_chat_messages [SystemMessage ''Retrieved conversation context (2 messages)'']]"
    using t [THEN conjunct1] by (simp add: stub_chat_state_def f d)
  have c: "\<exists>f m1 m2.
      fst (retrieve_context_node
             (stub_chat_state (stub_message ''user'' ''old'' # replicate 10 (stub_message ''user'' ''new'')))
             stub_world) =
        Inr [Write_formatted_history f, Write_chat_messages m1] \<and>
      fst (retrieve_context_node
             (stub_chat_state (replicate 10 (stub_message ''user'' ''new''))) stub_world) =
        Inr [Write_formatted_history f, Write_chat_messages m2]"
    using t [THEN conjunct2, THEN conjunct2] by (simp add: stub_chat_state_def)
  from a b c show ?thesis by blast
qed

end
